theory Spec2Isabelle
  imports Main
begin

section \<open>Off-chain governance voting: the data the cast paths work on\<close>

text \<open>
  The development embeds the two vote-cast paths of the wallet:
  \<^item> \<open>OffChainGovernance::vote\<close> of \<open>src/qt/offchaingovernance.cpp\<close> (the GUI path), and
  \<^item> \<open>postoffchainproposals\<close> of \<open>src/wallet/rpcwallet.cpp\<close> (the RPC path).

  Byte vectors (\<open>CScript\<close>, signatures, hashes, key identifiers) and \<open>std::string\<close> are
  both \<open>string\<close>: a HOL \<open>char\<close> is one byte. Times (\<open>int64_t\<close>, \<open>std::time_t\<close>) and
  \<open>CAmount\<close> are \<open>int\<close>: the one subtraction on times, of 46 days from the clock, stays
  far inside 64 bits.
\<close>

type_synonym CScript = string

record CTxOut =
  scriptPubKey :: CScript

text \<open>
  A wallet transaction, with what the loops read of it: \<open>wtx.IsCoinStake()\<close>,
  \<open>wtx.GetTxTime()\<close> and \<open>wtx.tx->vout\<close>.
\<close>

record CWalletTx =
  IsCoinStake :: bool
  GetTxTime :: int
  vout :: "CTxOut list"

text \<open>A buffered proposal (\<open>Proposals\<close>): every member the source reads is a \<open>std::string\<close>.\<close>

record Proposals =
  name :: string
  details :: string
  address :: string
  amount :: string
  txid :: string
  end_time :: string
  votes_affirm :: string
  votes_oppose :: string
  vote_id_p :: string

text \<open>
  A buffered vote record (\<open>Votes\<close>). The weight is a \<open>std::string\<close>: the source reads it
  through \<open>std::stoi\<close>.
\<close>

record Votes =
  vote_id_v :: string
  address_v :: string
  weight :: string

record CGovernanceEntry =
  voteID :: string
  voteWeight :: int

text \<open>
  The wallet and the cryptographic primitives are collaborators whose code is outside the
  files embedded here; they are fields of one record. A \<open>bool\<close>-returning function with an
  out-parameter is an \<open>option\<close>:
  \<^item> \<open>ExtractDestination\<close> gives \<open>None\<close> where the destination left in \<open>dest\<close> fails
    \<open>IsValidDestination\<close>;
  \<^item> \<open>GetKeyForDestination\<close> gives \<open>None\<close> where the key identifier \<open>IsNull()\<close>;
  \<^item> \<open>GetKey\<close> and \<open>SignCompact\<close> give \<open>None\<close> where the source's call returns \<open>false\<close>.
  \<open>Serialize\<close> is what \<open>ss << s\<close> appends to the hash writer for a string \<open>s\<close>, and
  \<open>GetHash\<close> the digest of everything written.
\<close>

record collaborators =
  IsMine :: "CScript \<Rightarrow> bool"
  IsPayToScriptHashAny :: "CScript \<Rightarrow> bool"
  ExtractDestination :: "CScript \<Rightarrow> string option"
  EncodeDestination :: "string \<Rightarrow> string"
  GetKeyForDestination :: "string \<Rightarrow> string option"
  GetKey :: "string \<Rightarrow> string option"
  strMessageMagic :: string
  Serialize :: "string \<Rightarrow> string"
  GetHash :: "string \<Rightarrow> string"
  SignCompact :: "string \<Rightarrow> string \<Rightarrow> string option"
  EncodeBase64 :: "string \<Rightarrow> string"

section \<open>Collecting the voting addresses\<close>

text \<open>
  The inner loop over \<open>wtx.tx->vout\<close>, the same text on both paths: skip what is not
  mine, skip pay-to-script-hash, skip what \<open>std::find\<close> finds already stored, else
  \<open>push_back\<close>.
\<close>

fun scan_vout :: "collaborators \<Rightarrow> CTxOut list \<Rightarrow> CScript list \<Rightarrow> CScript list" where
  "scan_vout c [] votingAddresses = votingAddresses"
| "scan_vout c (out # outs) votingAddresses =
     (if \<not> IsMine c (scriptPubKey out) then scan_vout c outs votingAddresses
      else if IsPayToScriptHashAny c (scriptPubKey out) then scan_vout c outs votingAddresses
      else if scriptPubKey out \<in> set votingAddresses then scan_vout c outs votingAddresses
      else scan_vout c outs (votingAddresses @ [scriptPubKey out]))"

definition vote_timeframe :: int where
  "vote_timeframe = 46 * 60 * 60 * 24"

text \<open>
  The outer loop of \<open>postoffchainproposals\<close> over \<open>pwallet->mapWallet\<close> (the list is the
  map's values in iteration order): a transaction that is not a coinstake, or whose time
  is before \<open>current_time - vote_timeframe\<close>, is skipped.
\<close>

fun collect_rpc :: "collaborators \<Rightarrow> int \<Rightarrow> CWalletTx list \<Rightarrow> CScript list \<Rightarrow> CScript list" where
  "collect_rpc c current_time [] votingAddresses = votingAddresses"
| "collect_rpc c current_time (wtx # rest) votingAddresses =
     (if \<not> IsCoinStake wtx \<or> GetTxTime wtx < current_time - vote_timeframe
      then collect_rpc c current_time rest votingAddresses
      else collect_rpc c current_time rest (scan_vout c (vout wtx) votingAddresses))"

text \<open>
  The outer loop of \<open>OffChainGovernance::vote\<close>: only \<open>!wtx.IsCoinStake()\<close> skips a
  transaction; the source has no test of the transaction time here.
\<close>

fun collect_gui :: "collaborators \<Rightarrow> CWalletTx list \<Rightarrow> CScript list \<Rightarrow> CScript list" where
  "collect_gui c [] votingAddresses = votingAddresses"
| "collect_gui c (wtx # rest) votingAddresses =
     (if \<not> IsCoinStake wtx
      then collect_gui c rest votingAddresses
      else collect_gui c rest (scan_vout c (vout wtx) votingAddresses))"

section \<open>Signing one ballot per address\<close>

text \<open>
  What a cast attempt can end with. The names follow the error taxonomy; the two messages
  of the source are given for each (GUI / RPC).
\<close>

datatype stoi_error = invalid_argument | out_of_range

datatype failure =
    HelpRequested
      \<comment> \<open>RPC: \<open>request.fHelp || request.params.size() != 2\<close>\<close>
  | WalletLocked
      \<comment> \<open>RPC: "Error: Please enter the wallet passphrase with walletpassphrase first."\<close>
  | WalletStakingOnly
      \<comment> \<open>RPC: "Error: Wallet is unlocked for staking only."\<close>
  | NotSynced
      \<comment> \<open>GUI: "You cannot cast a vote until you are fully sycned!"\<close>
  | AlreadyVoted int
      \<comment> \<open>"You have already voted for this proposal! Your vote weight: " and the weight\<close>
  | AddressResolutionError
      \<comment> \<open>"Address decoding issue." / "Invalid address"\<close>
  | KeyIDNull
      \<comment> \<open>"Cannot extract address key ID's." / "Address does not refer to key"\<close>
  | KeyUnavailableError
      \<comment> \<open>"Cannot get wallet key." / "Private key not available"\<close>
  | SigningError
      \<comment> \<open>"Cannot create signature." / "Sign failed"\<close>
  | RequestFailed
      \<comment> \<open>"Vote not successful. Please try again at a later time." / "error, vote not casted"\<close>
  | WeightNotReadable stoi_error
      \<comment> \<open>\<open>std::stoi\<close> threw on a matching record's weight\<close>

datatype outcome =
    Cancelled
      \<comment> \<open>GUI: returns with no message (no valid row, unlock cancelled, dialog declined)\<close>
  | Failed failure
  | VoteCast int
      \<comment> \<open>the exchange reported success; the weight counted (it may be 0)\<close>
  | NeverReady
      \<comment> \<open>\<open>while(!g_governance.isReady()){}\<close> after CAST_VOTE never ends\<close>
  | VoteCastNeverReady int
      \<comment> \<open>GUI: success was reported, then the wait after the closing GET_PROPOSALS never ends\<close>

definition strMessage :: "string \<Rightarrow> string \<Rightarrow> string" where
  "strMessage vote_id decision = vote_id @ ''_'' @ decision"

text \<open>
  \<open>CHashWriter ss(SER_GETHASH, 0); ss << strMessageMagic; ss << strMessage;\<close> and then
  \<open>ss.GetHash()\<close>.
\<close>

definition message_hash :: "collaborators \<Rightarrow> string \<Rightarrow> string" where
  "message_hash c msg = GetHash c (Serialize c (strMessageMagic c) @ Serialize c msg)"

record Ballot =
  voteid :: string
  address_b :: string
  signature :: string
  ballot :: string

text \<open>The body of the loop over \<open>votingAddresses\<close> up to the signature, with its four exits.\<close>

definition sign_ballot :: "collaborators \<Rightarrow> string \<Rightarrow> string \<Rightarrow> CScript \<Rightarrow> failure + Ballot" where
  "sign_ballot c vote_id decision addrScript =
     (case ExtractDestination c addrScript of
        None \<Rightarrow> Inl AddressResolutionError
      | Some dest \<Rightarrow>
          (case GetKeyForDestination c dest of
             None \<Rightarrow> Inl KeyIDNull
           | Some keyID \<Rightarrow>
               (case GetKey c keyID of
                  None \<Rightarrow> Inl KeyUnavailableError
                | Some key \<Rightarrow>
                    (case SignCompact c key (message_hash c (strMessage vote_id decision)) of
                       None \<Rightarrow> Inl SigningError
                     | Some vchSig \<Rightarrow>
                         Inr \<lparr>voteid = vote_id, address_b = EncodeDestination c dest,
                              signature = EncodeBase64 c vchSig, ballot = decision\<rparr>))))"

definition dq :: string where
  "dq = [CHR 0x22]"

text \<open>The JSON object appended to \<open>postMessage\<close> for one ballot.\<close>

definition ballot_json :: "Ballot \<Rightarrow> string" where
  "ballot_json b =
     ''{'' @ dq @ ''voteid'' @ dq @ '':'' @ dq @ voteid b @
     dq @ '','' @ dq @ ''address'' @ dq @ '':'' @ dq @ address_b b @
     dq @ '','' @ dq @ ''signature'' @ dq @ '':'' @ dq @ signature b @
     dq @ '','' @ dq @ ''ballot'' @ dq @ '':'' @ dq @ ballot b @ dq @ ''}''"

text \<open>
  The loop over \<open>votingAddresses\<close>: \<open>postMessage\<close> starts as \<open>"["\<close> and \<open>id\<close> as 0; the
  first failing address ends the whole function.
\<close>

fun sign_loop :: "collaborators \<Rightarrow> string \<Rightarrow> string \<Rightarrow> CScript list \<Rightarrow> string \<Rightarrow> nat \<Rightarrow> failure + string" where
  "sign_loop c vote_id decision [] postMessage i = Inr postMessage"
| "sign_loop c vote_id decision (addrScript # rest) postMessage i =
     (case sign_ballot c vote_id decision addrScript of
        Inl e \<Rightarrow> Inl e
      | Inr b \<Rightarrow>
          sign_loop c vote_id decision rest
            ((if i \<noteq> 0 then postMessage @ '','' else postMessage) @ ballot_json b) (i + 1))"

section \<open>Reading the weight\<close>

text \<open>
  \<open>std::stoi(str)\<close>, base 10: leading white space is skipped, one sign is accepted, the
  longest run of digits is read and what follows is ignored; no digit throws
  \<open>std::invalid_argument\<close>, a value outside \<open>int\<close> throws \<open>std::out_of_range\<close>.
\<close>

definition isspace :: "char \<Rightarrow> bool" where
  "isspace ch = (ch \<in> set [CHR '' '', CHR 0x09, CHR 0x0A, CHR 0x0B, CHR 0x0C, CHR 0x0D])"

definition isdigit :: "char \<Rightarrow> bool" where
  "isdigit ch = (48 \<le> (of_char ch :: nat) \<and> (of_char ch :: nat) \<le> 57)"

fun digits_value :: "string \<Rightarrow> nat \<Rightarrow> nat" where
  "digits_value [] n = n"
| "digits_value (d # ds) n = digits_value ds (10 * n + (of_char d - 48))"

definition stoi :: "string \<Rightarrow> stoi_error + int" where
  "stoi str =
     (let s1 = dropWhile isspace str;
          neg = (case s1 of [] \<Rightarrow> False | ch # _ \<Rightarrow> ch = CHR ''-'');
          s2 = (case s1 of [] \<Rightarrow> [] | ch # r \<Rightarrow> if ch = CHR ''-'' \<or> ch = CHR ''+'' then r else s1);
          ds = takeWhile isdigit s2
      in if ds = [] then Inl invalid_argument
         else let v = (if neg then - int (digits_value ds 0) else int (digits_value ds 0))
              in if v < - (2 ^ 31) \<or> 2 ^ 31 - 1 < v then Inl out_of_range else Inr v)"

text \<open>
  The loop over \<open>g_governance.votes\<close>: \<open>voteWeight\<close> (here \<open>w\<close>) starts as 0; a record of another
  vote identifier is skipped before its weight is read. (\<open>CAmount\<close> is 64 bits wide and
  every addend is an \<open>int\<close> of 32 bits, so the sum stays in range for fewer than
  \<open>2^32\<close> records; it is an \<open>int\<close> here.)
\<close>

fun weight_loop :: "string \<Rightarrow> Votes list \<Rightarrow> int \<Rightarrow> stoi_error + int" where
  "weight_loop vote_id [] w = Inr w"
| "weight_loop vote_id (v # vs) w =
     (if vote_id_v v \<noteq> vote_id then weight_loop vote_id vs w
      else (case stoi (weight v) of
              Inl e \<Rightarrow> Inl e
            | Inr n \<Rightarrow> weight_loop vote_id vs (w + n)))"

section \<open>The governance ledger and the coordination service\<close>

text \<open>
  The loop over \<open>govEntries\<close> (the result of \<open>ListGovernanceEntries\<close>) that both paths run
  before anything else is done with the vote identifier: the first entry of the same
  identifier ends the function.
\<close>

fun find_entry :: "string \<Rightarrow> CGovernanceEntry list \<Rightarrow> CGovernanceEntry option" where
  "find_entry vote_id [] = None"
| "find_entry vote_id (entry # es) =
     (if vote_id = voteID entry then Some entry else find_entry vote_id es)"

datatype ledger_error = DuplicateVoteError

definition Exists :: "string \<Rightarrow> CGovernanceEntry list \<Rightarrow> bool" where
  "Exists v entries = (find_entry v entries \<noteq> None)"

text \<open>
  Modelled from the spec: \<open>CWalletDB::WriteGovernanceEntry\<close> (the ledger's \<open>Write\<close>) is
  not among the embedded files, only its two call sites are. The specification's words:
  \<open>Write\<close> fails with \<open>DuplicateVoteError\<close> if an entry for that vote identifier already
  exists, re-checked by the store on write, as a single atomic insert-if-absent.
\<close>

definition WriteGovernanceEntry ::
    "CGovernanceEntry \<Rightarrow> CGovernanceEntry list \<Rightarrow> ledger_error + CGovernanceEntry list" where
  "WriteGovernanceEntry govVote entries =
     (if Exists (voteID govVote) entries then Inl DuplicateVoteError
      else Inr (entries @ [govVote]))"

datatype request = GET_PROPOSALS | CAST_VOTE string

text \<open>
  The node's state that the cast paths read and change: the wallet database's governance
  entries, the buffers of the process-wide \<open>g_governance\<close>, and the requests handed to
  \<open>SendRequests\<close> so far, oldest first.
\<close>

record node =
  govEntries :: "CGovernanceEntry list"
  proposals :: "Proposals list"
  votes :: "Votes list"
  statusOK :: bool
  sent :: "request list"

text \<open>
  The coordination service and the transport: given the requests sent so far, what the
  buffers hold once \<open>isReady()\<close> is true, or \<open>None\<close> when it never is.
\<close>

record reply =
  r_statusOK :: bool
  r_proposals :: "Proposals list"
  r_votes :: "Votes list"

type_synonym service = "request list \<Rightarrow> reply option"

definition SendRequests :: "request \<Rightarrow> node \<Rightarrow> node" where
  "SendRequests req g = g\<lparr>sent := sent g @ [req]\<rparr>"

definition await_ready :: "service \<Rightarrow> node \<Rightarrow> node option" where
  "await_ready svc g =
     (case svc (sent g) of
        None \<Rightarrow> None
      | Some r \<Rightarrow> Some (g\<lparr>statusOK := r_statusOK r, proposals := r_proposals r,
                           votes := r_votes r\<rparr>))"

text \<open>
  The call site \<open>walletdb.WriteGovernanceEntry(govVote);\<close>: the returned value is not
  looked at.
\<close>

definition store_vote :: "CGovernanceEntry \<Rightarrow> node \<Rightarrow> node" where
  "store_vote govVote g =
     (case WriteGovernanceEntry govVote (govEntries g) of
        Inl _ \<Rightarrow> g
      | Inr entries \<Rightarrow> g\<lparr>govEntries := entries\<rparr>)"

section \<open>The two cast paths\<close>

record environment =
  IsInitialBlockDownload :: bool
  IsLocked :: bool
  IsHDEnabled :: bool
  fUnlockForStakingOnly :: bool
  std_time :: int
  mapWallet :: "CWalletTx list"

text \<open>
  What the GUI path takes from the user: the text of column 0 of the selected row
  (\<open>None\<close> when \<open>sel.isValid()\<close> is false), whether the unlock context is valid, and
  whether the confirmation dialog was answered Yes.
\<close>

record gui_input =
  selectedRow :: "string option"
  ctx_isValid :: bool
  confirmed :: bool

record JSONRPCRequest =
  fHelp :: bool
  params :: "string list"

text \<open>
  \<open>Proposals selectedProp;\<close> and the loop with \<open>break\<close> over \<open>g_governance.proposals\<close>:
  the first buffered proposal whose name is the selected text; a default-constructed
  \<open>Proposals\<close> (every string empty) when there is none.
\<close>

definition default_Proposals :: Proposals where
  "default_Proposals =
     \<lparr>name = [], details = [], address = [], amount = [], txid = [], end_time = [],
      votes_affirm = [], votes_oppose = [], vote_id_p = []\<rparr>"

fun select_proposal :: "string \<Rightarrow> Proposals list \<Rightarrow> Proposals" where
  "select_proposal nm [] = default_Proposals"
| "select_proposal nm (p # ps) = (if nm = name p then p else select_proposal nm ps)"

text \<open>\<open>OffChainGovernance::vote(std::string decision)\<close>.\<close>

definition vote ::
    "collaborators \<Rightarrow> service \<Rightarrow> environment \<Rightarrow> gui_input \<Rightarrow> string \<Rightarrow> node \<Rightarrow> outcome \<times> node" where
  "vote c svc env inp decision g =
     (case selectedRow inp of
        None \<Rightarrow> (Cancelled, g)
      | Some nm \<Rightarrow>
          if IsInitialBlockDownload env then (Failed NotSynced, g)
          else if \<not> ctx_isValid inp then (Cancelled, g)
          else
            let selectedProp = select_proposal nm (proposals g);
                vid = vote_id_p selectedProp
            in (case find_entry vid (govEntries g) of
                  Some entry \<Rightarrow> (Failed (AlreadyVoted (voteWeight entry)), g)
                | None \<Rightarrow>
                    if \<not> confirmed inp then (Cancelled, g)
                    else
                      (case sign_loop c vid decision (collect_gui c (mapWallet env) []) ''['' 0 of
                         Inl e \<Rightarrow> (Failed e, g)
                       | Inr postMessage \<Rightarrow>
                           let g1 = SendRequests (CAST_VOTE (postMessage @ '']'')) g
                           in (case await_ready svc g1 of
                                 None \<Rightarrow> (NeverReady, g1)
                               | Some g2 \<Rightarrow>
                                   if \<not> statusOK g2 then (Failed RequestFailed, g2)
                                   else
                                     (case weight_loop vid (votes g2) 0 of
                                        Inl e \<Rightarrow> (Failed (WeightNotReadable e), g2)
                                      | Inr w \<Rightarrow>
                                          let g3 = (if w \<noteq> 0
                                                    then store_vote \<lparr>voteID = vid, voteWeight = w\<rparr> g2
                                                    else g2);
                                              g4 = SendRequests GET_PROPOSALS g3
                                          in (case await_ready svc g4 of
                                                None \<Rightarrow> (VoteCastNeverReady w, g4)
                                              | Some g5 \<Rightarrow> (VoteCast w, g5)))))))"

text \<open>
  \<open>EnsureWalletIsUnlocked(pwallet)\<close> of \<open>rpcwallet.cpp\<close>: it throws when the wallet is
  locked, and when an HD wallet is unlocked for staking only; \<open>None\<close> is its normal
  return.
\<close>

definition EnsureWalletIsUnlocked :: "environment \<Rightarrow> failure option" where
  "EnsureWalletIsUnlocked env =
     (if IsLocked env then Some WalletLocked
      else if IsHDEnabled env \<and> fUnlockForStakingOnly env then Some WalletStakingOnly
      else None)"

text \<open>
  \<open>postoffchainproposals(const JSONRPCRequest& request)\<close>, on the wallet that
  \<open>GetWalletForJSONRPCRequest\<close> resolved. The parameters are strings;
  the value returned on success lists the matching vote records, and \<open>VoteCast\<close> carries
  the weight that the function computed from them.
\<close>

definition postoffchainproposals ::
    "collaborators \<Rightarrow> service \<Rightarrow> environment \<Rightarrow> JSONRPCRequest \<Rightarrow> node \<Rightarrow> outcome \<times> node" where
  "postoffchainproposals c svc env request g =
     (if fHelp request \<or> length (params request) \<noteq> 2 then (Failed HelpRequested, g)
      else
        (case EnsureWalletIsUnlocked env of
           Some f \<Rightarrow> (Failed f, g)
         | None \<Rightarrow>
            let vid = params request ! 0;
                decision = params request ! 1
            in (case find_entry vid (govEntries g) of
                  Some entry \<Rightarrow> (Failed (AlreadyVoted (voteWeight entry)), g)
                | None \<Rightarrow>
                    (case sign_loop c vid decision
                            (collect_rpc c (std_time env) (mapWallet env) []) ''['' 0 of
                       Inl e \<Rightarrow> (Failed e, g)
                     | Inr postMessage \<Rightarrow>
                         let g1 = SendRequests (CAST_VOTE (postMessage @ '']'')) g
                         in (case await_ready svc g1 of
                               None \<Rightarrow> (NeverReady, g1)
                             | Some g2 \<Rightarrow>
                                 if \<not> statusOK g2 then (Failed RequestFailed, g2)
                                 else
                                   (case weight_loop vid (votes g2) 0 of
                                      Inl e \<Rightarrow> (Failed (WeightNotReadable e), g2)
                                    | Inr w \<Rightarrow>
                                        (VoteCast w,
                                         if w \<noteq> 0
                                         then store_vote \<lparr>voteID = vid, voteWeight = w\<rparr> g2
                                         else g2)))))))"

section \<open>The specification's reading of two components\<close>

text \<open>
  The stake address collector as the specification words it: the owned scripts, none of
  a script-hash family, that are outputs of stake-producing transactions whose time is
  inside the window of 46 days ending at \<open>now\<close>.
\<close>

definition eligible_stake_scripts :: "collaborators \<Rightarrow> int \<Rightarrow> CWalletTx list \<Rightarrow> CScript set" where
  "eligible_stake_scripts c now txs =
     {s. \<exists>wtx \<in> set txs. IsCoinStake wtx \<and> now - 46 * 86400 \<le> GetTxTime wtx \<and>
           s \<in> scriptPubKey ` set (vout wtx) \<and> IsMine c s \<and> \<not> IsPayToScriptHashAny c s}"

text \<open>The ballots of a request body, joined as the signing loop joins them.\<close>

fun join_ballots :: "nat \<Rightarrow> Ballot list \<Rightarrow> string" where
  "join_ballots i [] = []"
| "join_ballots i (b # bs) =
     (if i \<noteq> 0 then '','' else []) @ ballot_json b @ join_ballots (i + 1) bs"

text \<open>
  A sequence of cast attempts on one node, each with its own surroundings. An attempt
  whose wait never ends hands on the state it had reached (the wallet database and the
  requests sent outlive the call).
\<close>

datatype cast_call =
    GuiVote collaborators service environment gui_input string
  | RpcVote collaborators service environment JSONRPCRequest

fun run_casts :: "cast_call list \<Rightarrow> node \<Rightarrow> node" where
  "run_casts [] g = g"
| "run_casts (GuiVote c svc env inp decision # rest) g =
     run_casts rest (snd (vote c svc env inp decision g))"
| "run_casts (RpcVote c svc env request # rest) g =
     run_casts rest (snd (postoffchainproposals c svc env request g))"

section \<open>A small wallet to run the paths on\<close>

text \<open>
  Scripts \<open>A\<close> and \<open>B\<close> are owned single-key scripts, \<open>H\<close> is an owned script-hash
  script, \<open>X\<close> is foreign; the key of \<open>B\<close> is not in the wallet.
\<close>

definition example_wallet :: collaborators where
  "example_wallet =
     \<lparr>IsMine = (\<lambda>s. s \<in> set [''A'', ''B'', ''H'']),
      IsPayToScriptHashAny = (\<lambda>s. s = ''H''),
      ExtractDestination = (\<lambda>s. Some s),
      EncodeDestination = (\<lambda>d. d),
      GetKeyForDestination = (\<lambda>d. Some d),
      GetKey = (\<lambda>k. if k = ''B'' then None else Some k),
      strMessageMagic = ''magic'',
      Serialize = (\<lambda>s. s),
      GetHash = (\<lambda>s. s),
      SignCompact = (\<lambda>key h. Some (key @ '':'' @ h)),
      EncodeBase64 = (\<lambda>s. s)\<rparr>"

definition tx_recent :: CWalletTx where
  "tx_recent = \<lparr>IsCoinStake = True, GetTxTime = 9000000,
                vout = [\<lparr>scriptPubKey = ''A''\<rparr>, \<lparr>scriptPubKey = ''H''\<rparr>,
                        \<lparr>scriptPubKey = ''X''\<rparr>, \<lparr>scriptPubKey = ''A''\<rparr>]\<rparr>"

definition tx_recent2 :: CWalletTx where
  "tx_recent2 = \<lparr>IsCoinStake = True, GetTxTime = 9500000, vout = [\<lparr>scriptPubKey = ''A''\<rparr>]\<rparr>"

definition tx_old :: CWalletTx where
  "tx_old = \<lparr>IsCoinStake = True, GetTxTime = 1000000, vout = [\<lparr>scriptPubKey = ''B''\<rparr>]\<rparr>"

definition tx_stale :: CWalletTx where
  "tx_stale = \<lparr>IsCoinStake = True, GetTxTime = 1000000, vout = [\<lparr>scriptPubKey = ''A''\<rparr>]\<rparr>"

definition tx_payment :: CWalletTx where
  "tx_payment = \<lparr>IsCoinStake = False, GetTxTime = 9000000, vout = [\<lparr>scriptPubKey = ''B''\<rparr>]\<rparr>"

definition example_env :: environment where
  "example_env = \<lparr>IsInitialBlockDownload = False, IsLocked = False, IsHDEnabled = True,
                  fUnlockForStakingOnly = False, std_time = 10000000,
                  mapWallet = [tx_recent, tx_payment, tx_recent2]\<rparr>"

text \<open>
  Three buffered proposals; the last two share the display name \<open>Roadmap\<close> and differ in
  their vote identifier.
\<close>

definition proposal_7 :: Proposals where
  "proposal_7 = default_Proposals\<lparr>name := ''Grant'', vote_id_p := ''prop-7''\<rparr>"

definition roadmap_1 :: Proposals where
  "roadmap_1 = default_Proposals\<lparr>name := ''Roadmap'', vote_id_p := ''v1''\<rparr>"

definition roadmap_2 :: Proposals where
  "roadmap_2 = default_Proposals\<lparr>name := ''Roadmap'', vote_id_p := ''v2''\<rparr>"

definition example_node :: node where
  "example_node = \<lparr>govEntries = [], proposals = [proposal_7, roadmap_1, roadmap_2],
                   votes = [], statusOK = False, sent = []\<rparr>"

definition example_click :: gui_input where
  "example_click = \<lparr>selectedRow = Some ''Grant'', ctx_isValid = True, confirmed = True\<rparr>"

definition example_request :: JSONRPCRequest where
  "example_request = \<lparr>fHelp = False, params = [''prop-7'', ''1'']\<rparr>"

text \<open>A service that counts 50 for \<open>A\<close> on \<open>prop-7\<close>, and one that accepts and counts nothing.\<close>

definition service_50 :: service where
  "service_50 reqs =
     Some \<lparr>r_statusOK = True, r_proposals = [proposal_7, roadmap_1, roadmap_2],
           r_votes = [\<lparr>vote_id_v = ''prop-7'', address_v = ''A'', weight = ''50''\<rparr>]\<rparr>"

definition service_large :: service where
  "service_large reqs =
     Some \<lparr>r_statusOK = True, r_proposals = [proposal_7, roadmap_1, roadmap_2],
           r_votes = [\<lparr>vote_id_v = ''prop-7'', address_v = ''A'', weight = ''2147483648''\<rparr>]\<rparr>"

definition service_nothing :: service where
  "service_nothing reqs =
     Some \<lparr>r_statusOK = True, r_proposals = [proposal_7, roadmap_1, roadmap_2], r_votes = []\<rparr>"

section \<open>Properties of the collection\<close>

lemma scan_vout_set:
  "set (scan_vout c outs acc) =
     set acc \<union> {s \<in> scriptPubKey ` set outs. IsMine c s \<and> \<not> IsPayToScriptHashAny c s}"
  by (induction outs arbitrary: acc) auto

lemma scan_vout_distinct: "distinct acc \<Longrightarrow> distinct (scan_vout c outs acc)"
  by (induction outs arbitrary: acc) auto

lemma collect_rpc_set:
  "set (collect_rpc c now txs acc) =
     set acc \<union> {s. \<exists>wtx \<in> set txs. IsCoinStake wtx \<and> now - vote_timeframe \<le> GetTxTime wtx \<and>
                   s \<in> scriptPubKey ` set (vout wtx) \<and> IsMine c s \<and> \<not> IsPayToScriptHashAny c s}"
proof (induction txs arbitrary: acc)
  case Nil
  show ?case by simp
next
  case (Cons wtx rest)
  show ?case
  proof (cases "\<not> IsCoinStake wtx \<or> GetTxTime wtx < now - vote_timeframe")
    case True
    then show ?thesis using Cons.IH [of acc] by auto
  next
    case False
    then show ?thesis
      using Cons.IH [of "scan_vout c (vout wtx) acc"] by (auto simp: scan_vout_set)
  qed
qed

lemma collect_rpc_distinct: "distinct acc \<Longrightarrow> distinct (collect_rpc c now txs acc)"
  by (induction txs arbitrary: acc) (auto simp: scan_vout_distinct)

lemma collect_gui_set:
  "set (collect_gui c txs acc) =
     set acc \<union> {s. \<exists>wtx \<in> set txs. IsCoinStake wtx \<and>
                   s \<in> scriptPubKey ` set (vout wtx) \<and> IsMine c s \<and> \<not> IsPayToScriptHashAny c s}"
proof (induction txs arbitrary: acc)
  case Nil
  show ?case by simp
next
  case (Cons wtx rest)
  show ?case
  proof (cases "IsCoinStake wtx")
    case False
    then show ?thesis using Cons.IH [of acc] by auto
  next
    case True
    then show ?thesis
      using Cons.IH [of "scan_vout c (vout wtx) acc"] by (auto simp: scan_vout_set)
  qed
qed

lemma collect_gui_distinct: "distinct acc \<Longrightarrow> distinct (collect_gui c txs acc)"
  by (induction txs arbitrary: acc) (auto simp: scan_vout_distinct)

text \<open>The RPC path collects exactly what the specification words.\<close>

lemma rpc_collection_exact:
  "set (collect_rpc c now txs []) = eligible_stake_scripts c now txs
   \<and> distinct (collect_rpc c now txs [])"
proof -
  have "vote_timeframe = 46 * 86400" by (simp add: vote_timeframe_def)
  then have "set (collect_rpc c now txs []) = eligible_stake_scripts c now txs"
    unfolding collect_rpc_set eligible_stake_scripts_def by auto
  then show ?thesis by (simp add: collect_rpc_distinct)
qed

lemmas example_defs = example_wallet_def tx_recent_def tx_recent2_def tx_old_def tx_payment_def
  tx_stale_def
  example_env_def example_node_def example_request_def example_click_def
  proposal_7_def roadmap_1_def roadmap_2_def default_Proposals_def

lemmas run_defs = postoffchainproposals_def vote_def EnsureWalletIsUnlocked_def Let_def sign_ballot_def message_hash_def
  strMessage_def SendRequests_def await_ready_def store_vote_def WriteGovernanceEntry_def
  Exists_def vote_timeframe_def

section \<open>Facts about the loops\<close>

lemma sign_ballot_error_kind:
  "sign_ballot c v d a = Inl e \<Longrightarrow>
   e \<in> {AddressResolutionError, KeyIDNull, KeyUnavailableError, SigningError}"
  by (auto simp add: sign_ballot_def split: option.splits)

lemma sign_ballot_fields:
  "sign_ballot c v d a = Inr b \<Longrightarrow> voteid b = v \<and> ballot b = d"
  by (auto simp add: sign_ballot_def split: option.splits)

lemma sign_loop_fails:
  "a \<in> set addrs \<Longrightarrow> sign_ballot c v d a = Inl e \<Longrightarrow>
   \<exists>a' \<in> set addrs. \<exists>e'. sign_ballot c v d a' = Inl e' \<and> sign_loop c v d addrs pm i = Inl e'"
proof (induction addrs arbitrary: pm i)
  case Nil
  then show ?case by simp
next
  case (Cons x xs)
  show ?case
  proof (cases "sign_ballot c v d x")
    case (Inl e')
    then show ?thesis by auto
  next
    case (Inr b)
    with Cons.prems have "a \<in> set xs" by auto
    from Cons.IH [OF this Cons.prems(2)] Inr show ?thesis by auto
  qed
qed

lemma sign_loop_error_kind:
  "sign_loop c v d addrs pm i = Inl e \<Longrightarrow>
   \<exists>a \<in> set addrs. sign_ballot c v d a = Inl e"
proof (induction addrs arbitrary: pm i)
  case Nil
  then show ?case by simp
next
  case (Cons x xs)
  then show ?case by (cases "sign_ballot c v d x") auto
qed

lemma sign_loop_payload:
  "sign_loop c v d addrs pm i = Inr r \<Longrightarrow>
   \<exists>bs. map (sign_ballot c v d) addrs = map Inr bs \<and> r = pm @ join_ballots i bs"
proof (induction addrs arbitrary: pm i)
  case Nil
  then show ?case by simp
next
  case (Cons x xs)
  show ?case
  proof (cases "sign_ballot c v d x")
    case (Inl e)
    with Cons.prems show ?thesis by simp
  next
    case (Inr b)
    with Cons.prems have
      "sign_loop c v d xs ((if i \<noteq> 0 then pm @ '','' else pm) @ ballot_json b) (i + 1) = Inr r"
      by simp
    from Cons.IH [OF this] obtain bs where
      bs: "map (sign_ballot c v d) xs = map Inr bs"
          "r = ((if i \<noteq> 0 then pm @ '','' else pm) @ ballot_json b) @ join_ballots (i + 1) bs"
      by blast
    have "map (sign_ballot c v d) (x # xs) = map Inr (b # bs)" using Inr bs(1) by simp
    moreover have "r = pm @ join_ballots i (b # bs)" using bs(2) by simp
    ultimately show ?thesis by blast
  qed
qed

lemma select_proposal_first:
  "select_proposal nm ps =
     (case List.find (\<lambda>p. name p = nm) ps of None \<Rightarrow> default_Proposals | Some p \<Rightarrow> p)"
  by (induction ps) auto

lemma select_proposal_distinct:
  "p \<in> set ps \<Longrightarrow> distinct (map name ps) \<Longrightarrow> select_proposal (name p) ps = p"
  by (induction ps) (auto simp add: rev_image_eqI)

lemma select_proposal_no_match:
  "nm \<notin> name ` set ps \<Longrightarrow> select_proposal nm ps = default_Proposals"
  by (induction ps) auto

lemma map_sign_ballot_fields:
  "map (sign_ballot c v d) addrs = map Inr bs \<Longrightarrow> \<forall>b \<in> set bs. voteid b = v \<and> ballot b = d"
proof (induction addrs arbitrary: bs)
  case Nil
  then show ?case by simp
next
  case (Cons a addrs)
  then obtain b bs' where bs: "bs = b # bs'" by (cases bs) auto
  with Cons.prems have "sign_ballot c v d a = Inr b" "map (sign_ballot c v d) addrs = map Inr bs'"
    by auto
  with Cons.IH [of bs'] sign_ballot_fields [of c v d a b] bs show ?case by auto
qed

lemma find_entry_Some: "find_entry v es = Some e \<Longrightarrow> e \<in> set es \<and> voteID e = v"
  by (induction es) (auto split: if_splits)

lemma find_entry_None: "find_entry v es = None \<longleftrightarrow> v \<notin> voteID ` set es"
  by (induction es) auto

lemma find_entry_append:
  "find_entry v (es @ [e]) =
     (case find_entry v es of Some x \<Rightarrow> Some x | None \<Rightarrow> if v = voteID e then Some e else None)"
  by (induction es) auto

lemma store_vote_fresh:
  "find_entry (voteID e) (govEntries g) = None \<Longrightarrow>
   store_vote e g = g\<lparr>govEntries := govEntries g @ [e]\<rparr>"
  by (simp add: store_vote_def WriteGovernanceEntry_def Exists_def)

lemma Exists_find_entry:
  "Exists v es \<Longrightarrow> \<exists>entry \<in> set es. voteID entry = v \<and> find_entry v es = Some entry"
  unfolding Exists_def using find_entry_Some by fastforce


lemma weight_loop_sum:
  "(\<forall>v \<in> set vs. vote_id_v v = vid \<longrightarrow> stoi (weight v) = Inr (val v)) \<Longrightarrow>
   weight_loop vid vs w = Inr (w + sum_list (map val (filter (\<lambda>v. vote_id_v v = vid) vs)))"
  by (induction vs arbitrary: w) auto

lemma weight_loop_no_match:
  "(\<forall>v \<in> set vs. vote_id_v v \<noteq> vid) \<Longrightarrow> weight_loop vid vs w = Inr w"
  by (induction vs arbitrary: w) auto

lemma stoi_10: "stoi ''10'' = Inr 10" by (simp add: stoi_def isdigit_def isspace_def)
lemma stoi_5: "stoi ''5'' = Inr 5" by (simp add: stoi_def isdigit_def isspace_def)
lemma stoi_50: "stoi ''50'' = Inr 50" by (simp add: stoi_def isdigit_def isspace_def)
lemma stoi_2147483648: "stoi ''2147483648'' = Inl out_of_range"
  by (simp add: stoi_def isdigit_def isspace_def)

section \<open>How each cast path can end\<close>

text \<open>
  The RPC path: its exits before signing, and every way it can end, with what it leaves
  in the node's state.
\<close>

lemma EnsureWalletIsUnlocked_exits:
  "EnsureWalletIsUnlocked env = Some f \<Longrightarrow> f = WalletLocked \<or> f = WalletStakingOnly"
  by (auto simp add: EnsureWalletIsUnlocked_def split: if_splits)

lemma rpc_gates:
  "fHelp request \<or> length (params request) \<noteq> 2 \<Longrightarrow>
     postoffchainproposals c svc env request g = (Failed HelpRequested, g)"
  "\<not> (fHelp request \<or> length (params request) \<noteq> 2) \<Longrightarrow>
     EnsureWalletIsUnlocked env = Some f \<Longrightarrow>
     postoffchainproposals c svc env request g = (Failed f, g)"
  by (simp_all add: postoffchainproposals_def)

lemma rpc_already_voted:
  "\<not> fHelp request \<Longrightarrow> length (params request) = 2 \<Longrightarrow>
   EnsureWalletIsUnlocked env = None \<Longrightarrow>
   find_entry (params request ! 0) (govEntries g) = Some entry \<Longrightarrow>
   postoffchainproposals c svc env request g = (Failed (AlreadyVoted (voteWeight entry)), g)"
  by (simp add: postoffchainproposals_def)

lemma rpc_sign_failure:
  "\<not> fHelp request \<Longrightarrow> length (params request) = 2 \<Longrightarrow>
   EnsureWalletIsUnlocked env = None \<Longrightarrow>
   find_entry (params request ! 0) (govEntries g) = None \<Longrightarrow>
   sign_loop c (params request ! 0) (params request ! 1)
     (collect_rpc c (std_time env) (mapWallet env) []) ''['' 0 = Inl e \<Longrightarrow>
   postoffchainproposals c svc env request g = (Failed e, g)"
  by (simp add: postoffchainproposals_def)

lemma rpc_cases:
  assumes "postoffchainproposals c svc env request g = (r, g')"
  shows "(g' = g \<and> (\<exists>f. r = Failed f)) \<or>
         (find_entry (params request ! 0) (govEntries g) = None \<and>
          (\<exists>pm. sign_loop c (params request ! 0) (params request ! 1)
                  (collect_rpc c (std_time env) (mapWallet env) []) ''['' 0 = Inr pm \<and>
            sent g' = sent g @ [CAST_VOTE (pm @ '']'')] \<and>
            ((govEntries g' = govEntries g \<and>
                (r \<in> {NeverReady, Failed RequestFailed, VoteCast 0}
                 \<or> (\<exists>e. r = Failed (WeightNotReadable e)))) \<or>
             (\<exists>w rep. w \<noteq> 0 \<and> r = VoteCast w
                \<and> svc (sent g @ [CAST_VOTE (pm @ '']'')]) = Some rep \<and> r_statusOK rep
                \<and> weight_loop (params request ! 0) (r_votes rep) 0 = Inr w
                \<and> govEntries g' =
                    govEntries g @ [\<lparr>voteID = params request ! 0, voteWeight = w\<rparr>]))))"
  using assms
  by (auto simp add: postoffchainproposals_def Let_def SendRequests_def await_ready_def
        store_vote_fresh split: option.splits sum.splits if_splits)

text \<open>
  The GUI path, in the same way. After a reported success it sends a closing
  GET_PROPOSALS request.
\<close>

lemma gui_cases:
  assumes "vote c svc env inp decision g = (r, g')"
  shows "(g' = g \<and> (r = Cancelled \<or> (\<exists>f. r = Failed f))) \<or>
         (\<exists>nm pm. selectedRow inp = Some nm
            \<and> find_entry (vote_id_p (select_proposal nm (proposals g))) (govEntries g) = None
            \<and> sign_loop c (vote_id_p (select_proposal nm (proposals g))) decision
                  (collect_gui c (mapWallet env) []) ''['' 0 = Inr pm
            \<and> ((sent g' = sent g @ [CAST_VOTE (pm @ '']'')] \<and> govEntries g' = govEntries g
                  \<and> (r \<in> {NeverReady, Failed RequestFailed}
                       \<or> (\<exists>e. r = Failed (WeightNotReadable e))))
               \<or> (\<exists>w rep. (r = VoteCast w \<or> r = VoteCastNeverReady w)
                    \<and> sent g' = sent g @ [CAST_VOTE (pm @ '']''), GET_PROPOSALS]
                    \<and> svc (sent g @ [CAST_VOTE (pm @ '']'')]) = Some rep \<and> r_statusOK rep
                    \<and> weight_loop (vote_id_p (select_proposal nm (proposals g))) (r_votes rep) 0
                         = Inr w
                    \<and> govEntries g' =
                         (if w \<noteq> 0
                          then govEntries g @
                                 [\<lparr>voteID = vote_id_p (select_proposal nm (proposals g)),
                                   voteWeight = w\<rparr>]
                          else govEntries g))))"
proof (cases "selectedRow inp")
  case None
  with assms show ?thesis by (simp add: vote_def)
next
  case (Some nm)
  let ?vid = "vote_id_p (select_proposal nm (proposals g))"
  show ?thesis
  proof (cases "IsInitialBlockDownload env \<or> \<not> ctx_isValid inp")
    case True
    with assms Some have "(r, g') = (Failed NotSynced, g) \<or> (r, g') = (Cancelled, g)"
      by (cases "IsInitialBlockDownload env") (simp_all add: vote_def)
    then show ?thesis by auto
  next
    case gates: False
    show ?thesis
    proof (cases "find_entry ?vid (govEntries g)")
      case (Some entry)
      with assms gates \<open>selectedRow inp = Some nm\<close> show ?thesis
        by (auto simp add: vote_def Let_def)
    next
      case fresh: None
      show ?thesis
      proof (cases "confirmed inp")
        case False
        with assms gates fresh \<open>selectedRow inp = Some nm\<close> show ?thesis
          by (auto simp add: vote_def Let_def)
      next
        case yes: True
        show ?thesis
        proof (cases "sign_loop c ?vid decision (collect_gui c (mapWallet env) []) ''['' 0")
          case (Inl e)
          with assms gates fresh yes \<open>selectedRow inp = Some nm\<close> show ?thesis
            by (auto simp add: vote_def Let_def)
        next
          case (Inr pm)
          note known = Inr gates fresh yes \<open>selectedRow inp = Some nm\<close>
          let ?cv = "CAST_VOTE (pm @ '']'')"
          have "(sent g' = sent g @ [?cv] \<and> govEntries g' = govEntries g
                  \<and> (r \<in> {NeverReady, Failed RequestFailed}
                       \<or> (\<exists>e. r = Failed (WeightNotReadable e))))
               \<or> (\<exists>w rep. (r = VoteCast w \<or> r = VoteCastNeverReady w)
                    \<and> sent g' = sent g @ [?cv, GET_PROPOSALS]
                    \<and> svc (sent g @ [?cv]) = Some rep \<and> r_statusOK rep
                    \<and> weight_loop ?vid (r_votes rep) 0 = Inr w
                    \<and> govEntries g' =
                         (if w \<noteq> 0
                          then govEntries g @ [\<lparr>voteID = ?vid, voteWeight = w\<rparr>]
                          else govEntries g))"
          proof (cases "svc (sent g @ [?cv])")
            case None
            with assms known have "(r, g') = (NeverReady, g\<lparr>sent := sent g @ [?cv]\<rparr>)"
              by (simp add: vote_def Let_def SendRequests_def await_ready_def)
            then show ?thesis by simp
          next
            case (Some rep)
            show ?thesis
            proof (cases "r_statusOK rep")
              case False
              with assms known Some have "r = Failed RequestFailed"
                and "sent g' = sent g @ [?cv]" and "govEntries g' = govEntries g"
                by (auto simp add: vote_def Let_def SendRequests_def await_ready_def)
              then show ?thesis by simp
            next
              case ok: True
              show ?thesis
              proof (cases "weight_loop ?vid (r_votes rep) 0")
                case (Inl e)
                with assms known Some ok have "r = Failed (WeightNotReadable e)"
                  and "sent g' = sent g @ [?cv]" and "govEntries g' = govEntries g"
                  by (auto simp add: vote_def Let_def SendRequests_def await_ready_def)
                then show ?thesis by simp
              next
                case (Inr w)
                have "(r = VoteCast w \<or> r = VoteCastNeverReady w)
                    \<and> sent g' = sent g @ [?cv, GET_PROPOSALS]
                    \<and> govEntries g' =
                         (if w \<noteq> 0
                          then govEntries g @ [\<lparr>voteID = ?vid, voteWeight = w\<rparr>]
                          else govEntries g)"
                proof (cases "svc (sent g @ [?cv, GET_PROPOSALS])")
                  case None
                  with assms known Some ok Inr show ?thesis
                    by (cases "w = 0")
                       (auto simp add: vote_def Let_def SendRequests_def await_ready_def
                          store_vote_fresh)
                next
                  case (Some rep2)
                  with assms known \<open>svc (sent g @ [?cv]) = Some rep\<close> ok Inr show ?thesis
                    by (cases "w = 0")
                       (auto simp add: vote_def Let_def SendRequests_def await_ready_def
                          store_vote_fresh)
                qed
                with Some ok Inr show ?thesis by blast
              qed
            qed
          qed
          with fresh Inr \<open>selectedRow inp = Some nm\<close> show ?thesis by blast
        qed
      qed
    qed
  qed
qed

lemma rpc_already_voted_origin:
  assumes "postoffchainproposals c svc env request g = (Failed (AlreadyVoted w), g')"
  shows "\<exists>entry. find_entry (params request ! 0) (govEntries g) = Some entry
           \<and> voteWeight entry = w"
proof (cases "find_entry (params request ! 0) (govEntries g)")
  case (Some entry)
  with assms show ?thesis
    by (auto simp add: postoffchainproposals_def Let_def split: if_splits option.splits
          dest: EnsureWalletIsUnlocked_exits)
next
  case None
  have "\<And>e. sign_loop c (params request ! 0) (params request ! 1)
          (collect_rpc c (std_time env) (mapWallet env) []) ''['' 0 = Inl e \<Longrightarrow>
        e \<noteq> AlreadyVoted w"
    using sign_loop_error_kind sign_ballot_error_kind by fastforce
  with assms None show ?thesis
    by (auto simp add: postoffchainproposals_def Let_def
          split: if_splits sum.splits option.splits dest: EnsureWalletIsUnlocked_exits)
qed

lemma gui_already_voted_origin:
  assumes "vote c svc env inp decision g = (Failed (AlreadyVoted w), g')"
  shows "\<exists>nm entry. selectedRow inp = Some nm
           \<and> find_entry (vote_id_p (select_proposal nm (proposals g))) (govEntries g) = Some entry
           \<and> voteWeight entry = w"
proof (cases "selectedRow inp")
  case None
  with assms show ?thesis by (simp add: vote_def)
next
  case (Some nm)
  let ?vid = "vote_id_p (select_proposal nm (proposals g))"
  show ?thesis
  proof (cases "find_entry ?vid (govEntries g)")
    case (Some entry)
    with assms \<open>selectedRow inp = Some nm\<close> show ?thesis
      by (auto simp add: vote_def Let_def split: if_splits)
  next
    case None
    have "\<And>e. sign_loop c ?vid decision (collect_gui c (mapWallet env) []) ''['' 0 = Inl e \<Longrightarrow>
          e \<noteq> AlreadyVoted w"
      using sign_loop_error_kind sign_ballot_error_kind by fastforce
    with assms None \<open>selectedRow inp = Some nm\<close> show ?thesis
      by (auto simp add: vote_def Let_def split: if_splits sum.splits option.splits)
  qed
qed

lemma gui_already_voted:
  "selectedRow inp = Some nm \<Longrightarrow> \<not> IsInitialBlockDownload env \<Longrightarrow> ctx_isValid inp \<Longrightarrow>
   find_entry (vote_id_p (select_proposal nm (proposals g))) (govEntries g) = Some entry \<Longrightarrow>
   vote c svc env inp decision g = (Failed (AlreadyVoted (voteWeight entry)), g)"
  by (simp add: vote_def Let_def)

lemma gui_not_synced:
  "selectedRow inp = Some nm \<Longrightarrow> IsInitialBlockDownload env \<Longrightarrow>
   vote c svc env inp decision g = (Failed NotSynced, g)"
  by (simp add: vote_def)

lemma rpc_ignores_sync_state:
  "postoffchainproposals c svc (env\<lparr>IsInitialBlockDownload := b\<rparr>) request g
     = postoffchainproposals c svc env request g"
  unfolding postoffchainproposals_def
  by (simp add: EnsureWalletIsUnlocked_def cong: option.case_cong sum.case_cong)

lemma gui_sign_failure:
  "selectedRow inp = Some nm \<Longrightarrow> \<not> IsInitialBlockDownload env \<Longrightarrow> ctx_isValid inp \<Longrightarrow>
   find_entry (vote_id_p (select_proposal nm (proposals g))) (govEntries g) = None \<Longrightarrow>
   confirmed inp \<Longrightarrow>
   sign_loop c (vote_id_p (select_proposal nm (proposals g))) decision
     (collect_gui c (mapWallet env) []) ''['' 0 = Inl e \<Longrightarrow>
   vote c svc env inp decision g = (Failed e, g)"
  by (simp add: vote_def Let_def)

lemma rpc_unchanged_when_address_fails:
  assumes "a \<in> set (collect_rpc c (std_time env) (mapWallet env) [])"
    and "sign_ballot c (params request ! 0) (params request ! 1) a = Inl e"
  shows "snd (postoffchainproposals c svc env request g) = g"
proof -
  obtain r g' where res: "postoffchainproposals c svc env request g = (r, g')"
    by (cases "postoffchainproposals c svc env request g")
  from sign_loop_fails [OF assms, of "''[''" 0]
  have "\<forall>pm. sign_loop c (params request ! 0) (params request ! 1)
          (collect_rpc c (std_time env) (mapWallet env) []) ''['' 0 \<noteq> Inr pm"
    by auto
  with rpc_cases [OF res] have "g' = g" by blast
  with res show ?thesis by simp
qed

lemma gui_unchanged_when_address_fails:
  assumes "selectedRow inp = Some nm"
    and "a \<in> set (collect_gui c (mapWallet env) [])"
    and "sign_ballot c (vote_id_p (select_proposal nm (proposals g))) decision a = Inl e"
  shows "snd (vote c svc env inp decision g) = g"
proof -
  obtain r g' where res: "vote c svc env inp decision g = (r, g')"
    by (cases "vote c svc env inp decision g")
  from sign_loop_fails [OF assms(2,3), of "''[''" 0]
  have "\<forall>pm. sign_loop c (vote_id_p (select_proposal nm (proposals g))) decision
          (collect_gui c (mapWallet env) []) ''['' 0 \<noteq> Inr pm"
    by auto
  with gui_cases [OF res] assms(1) have "g' = g" by auto
  with res show ?thesis by simp
qed

lemma rpc_entry_after_counted_cast:
  assumes "postoffchainproposals c svc env request g = (VoteCast w, g')" and "w \<noteq> 0"
  shows "find_entry (params request ! 0) (govEntries g')
           = Some \<lparr>voteID = params request ! 0, voteWeight = w\<rparr>"
  using rpc_cases [OF assms(1)] assms(2) by (auto simp add: find_entry_append)

lemma gui_entry_after_counted_cast:
  assumes "vote c svc env inp decision g = (VoteCast w, g')" and "w \<noteq> 0"
    and "selectedRow inp = Some nm"
  shows "find_entry (vote_id_p (select_proposal nm (proposals g))) (govEntries g')
           = Some \<lparr>voteID = vote_id_p (select_proposal nm (proposals g)), voteWeight = w\<rparr>"
  using gui_cases [OF assms(1)] assms(2,3) by (auto simp add: find_entry_append)

lemma rpc_keeps_weights_nonzero:
  assumes "\<forall>e \<in> set (govEntries g). voteWeight e \<noteq> 0"
  shows "\<forall>e \<in> set (govEntries (snd (postoffchainproposals c svc env request g))). voteWeight e \<noteq> 0"
proof -
  obtain r g' where res: "postoffchainproposals c svc env request g = (r, g')"
    by (cases "postoffchainproposals c svc env request g")
  from rpc_cases [OF res] assms have "\<forall>e \<in> set (govEntries g'). voteWeight e \<noteq> 0"
    by auto
  with res show ?thesis by simp
qed

lemma gui_keeps_weights_nonzero:
  assumes "\<forall>e \<in> set (govEntries g). voteWeight e \<noteq> 0"
  shows "\<forall>e \<in> set (govEntries (snd (vote c svc env inp decision g))). voteWeight e \<noteq> 0"
proof -
  obtain r g' where res: "vote c svc env inp decision g = (r, g')"
    by (cases "vote c svc env inp decision g")
  from gui_cases [OF res] assms have "\<forall>e \<in> set (govEntries g'). voteWeight e \<noteq> 0"
    by (auto split: if_splits)
  with res show ?thesis by simp
qed

lemma run_casts_keeps_weights_nonzero:
  "\<forall>e \<in> set (govEntries g). voteWeight e \<noteq> 0 \<Longrightarrow>
   \<forall>e \<in> set (govEntries (run_casts calls g)). voteWeight e \<noteq> 0"
proof (induction calls g rule: run_casts.induct)
  case (1 g)
  then show ?case by simp
next
  case (2 c svc env inp decision rest g)
  from gui_keeps_weights_nonzero [OF "2.prems"] "2.IH" show ?case by simp
next
  case (3 c svc env request rest g)
  from rpc_keeps_weights_nonzero [OF "3.prems"] "3.IH" show ?case by simp
qed

section \<open>The stake address collector\<close>

text \<open>
  C7. On both cast paths the collected voting addresses never contain a script of a
  script-hash family (the only scripts that qualify are those the source does not skip as
  pay-to-script-hash), and a script that occurs in several outputs or transactions is
  stored once.
\<close>

theorem voting_addresses_exclude_script_hash:
  "(\<forall>s \<in> set (collect_rpc c now txs []). \<not> IsPayToScriptHashAny c s)
   \<and> (\<forall>s \<in> set (collect_gui c txs []). \<not> IsPayToScriptHashAny c s)
   \<and> distinct (collect_rpc c now txs []) \<and> distinct (collect_gui c txs [])"
  by (auto simp add: collect_rpc_set collect_gui_set collect_rpc_distinct collect_gui_distinct)

text \<open>
  A wallet with mixed outputs: \<open>A\<close> twice in one transaction and once more in another,
  the script-hash script \<open>H\<close>, the foreign \<open>X\<close>.
\<close>

theorem voting_addresses_exclude_script_hash_witness:
  "collect_rpc example_wallet 10000000 [tx_recent, tx_old, tx_payment, tx_recent2] [] = [''A'']
   \<and> collect_gui example_wallet [tx_recent, tx_old, tx_payment, tx_recent2] [] = [''A'', ''B'']
   \<and> IsPayToScriptHashAny example_wallet ''H''
   \<and> \<not> IsPayToScriptHashAny example_wallet ''A''
   \<and> \<not> IsPayToScriptHashAny example_wallet ''B''"
  using voting_addresses_exclude_script_hash
          [of example_wallet 10000000 "[tx_recent, tx_old, tx_payment, tx_recent2]"]
  by (simp add: example_defs vote_timeframe_def)

text \<open>
  C4. The GUI path has no test of the transaction time. For a wallet whose only
  coinstake is older than 46 days, the RPC path collects nothing and sends an empty
  batch, as the window demands (\<open>rpc_collection_exact\<close>); the GUI path collects the
  output \<open>A\<close> of that transaction, signs a ballot for it and sends it.
\<close>

theorem gui_collects_outside_window:
  "GetTxTime tx_stale < std_time example_env - vote_timeframe
   \<and> collect_rpc example_wallet (std_time example_env) [tx_stale] [] = []
   \<and> collect_gui example_wallet [tx_stale] [] = [''A'']
   \<and> sent (snd (postoffchainproposals example_wallet service_50
                  (example_env\<lparr>mapWallet := [tx_stale]\<rparr>) example_request example_node))
       = [CAST_VOTE ''[]'']
   \<and> sent (snd (vote example_wallet service_50 (example_env\<lparr>mapWallet := [tx_stale]\<rparr>)
                  example_click ''1'' example_node))
       = [CAST_VOTE (''['' @ ballot_json \<lparr>voteid = ''prop-7'', address_b = ''A'',
                              signature = ''A:magicprop-7_1'', ballot = ''1''\<rparr> @ '']''),
          GET_PROPOSALS]"
  by (simp add: example_defs run_defs service_50_def stoi_50)

section \<open>The ballot signer\<close>

text \<open>
  C6. For every vote identifier and decision token the signed message is the
  concatenation of the vote identifier, an underscore and the decision (\<open>abc_1\<close> for
  \<open>abc\<close> and \<open>1\<close>). A ballot that is produced carries the signature, base64-encoded,
  that the key of the address gave over the hash of the message magic followed by that
  message, together with the vote identifier and the decision it was asked for.
\<close>

theorem ballot_message_and_signature:
  "strMessage vote_id decision = vote_id @ ''_'' @ decision
   \<and> strMessage ''abc'' ''1'' = ''abc_1''
   \<and> (sign_ballot c vote_id decision addrScript = Inr b \<longrightarrow>
        (\<exists>dest keyID key vchSig.
           ExtractDestination c addrScript = Some dest
           \<and> GetKeyForDestination c dest = Some keyID
           \<and> GetKey c keyID = Some key
           \<and> SignCompact c key
             (GetHash c (Serialize c (strMessageMagic c) @ Serialize c (vote_id @ ''_'' @ decision)))
             = Some vchSig
           \<and> signature b = EncodeBase64 c vchSig \<and> voteid b = vote_id \<and> ballot b = decision))"
  by (fastforce simp add: strMessage_def sign_ballot_def message_hash_def split: option.splits)

theorem ballot_message_and_signature_witness:
  "sign_ballot example_wallet ''abc'' ''1'' ''A''
     = Inr \<lparr>voteid = ''abc'', address_b = ''A'', signature = ''A:magicabc_1'', ballot = ''1''\<rparr>
   \<and> SignCompact example_wallet ''A''
        (GetHash example_wallet (Serialize example_wallet (strMessageMagic example_wallet)
           @ Serialize example_wallet ''abc_1'')) = Some ''A:magicabc_1''"
  using ballot_message_and_signature [of "''abc''" "''1''" example_wallet "''A''"
          "\<lparr>voteid = ''abc'', address_b = ''A'', signature = ''A:magicabc_1'', ballot = ''1''\<rparr>"]
  by (simp add: example_wallet_def sign_ballot_def message_hash_def strMessage_def)

section \<open>The vote weight aggregator\<close>

text \<open>
  Where \<open>std::stoi\<close> reads the weight of every matching record (as the value \<open>val\<close> of
  the record), the loop gives the sum of those values over exactly the matching records;
  for the records \<open>p1: 10\<close>, \<open>p1: 5\<close>, \<open>p2: 100\<close> and \<open>p1\<close> that is 15, and it is 0
  when no record matches.
\<close>

lemma weight_loop_is_sum:
  "((\<forall>v \<in> set vs. vote_id_v v = vid \<longrightarrow> stoi (weight v) = Inr (val v)) \<longrightarrow>
      weight_loop vid vs 0 = Inr (sum_list (map val (filter (\<lambda>v. vote_id_v v = vid) vs))))
   \<and> ((\<forall>v \<in> set vs. vote_id_v v \<noteq> vid) \<longrightarrow> weight_loop vid vs 0 = Inr 0)
   \<and> weight_loop ''p1'' [\<lparr>vote_id_v = ''p1'', address_v = ''A'', weight = ''10''\<rparr>,
                          \<lparr>vote_id_v = ''p1'', address_v = ''B'', weight = ''5''\<rparr>,
                          \<lparr>vote_id_v = ''p2'', address_v = ''A'', weight = ''100''\<rparr>] 0 = Inr 15"
proof (intro conjI impI)
  assume "\<forall>v \<in> set vs. vote_id_v v = vid \<longrightarrow> stoi (weight v) = Inr (val v)"
  then show "weight_loop vid vs 0 = Inr (sum_list (map val (filter (\<lambda>v. vote_id_v v = vid) vs)))"
    using weight_loop_sum [of vs vid val 0] by simp
next
  assume "\<forall>v \<in> set vs. vote_id_v v \<noteq> vid"
  then show "weight_loop vid vs 0 = Inr 0" by (rule weight_loop_no_match)
next
  show "weight_loop ''p1'' [\<lparr>vote_id_v = ''p1'', address_v = ''A'', weight = ''10''\<rparr>,
                          \<lparr>vote_id_v = ''p1'', address_v = ''B'', weight = ''5''\<rparr>,
                          \<lparr>vote_id_v = ''p2'', address_v = ''A'', weight = ''100''\<rparr>] 0 = Inr 15"
    by (simp add: stoi_10 stoi_5)
qed

text \<open>
  C8. The accumulator is a 64-bit amount and the weight is read by \<open>std::stoi\<close>, whose
  result is a 32-bit \<open>int\<close>. For the single matching record of weight \<open>2147483648\<close>
  the sum of the weights is that number; the loop ends with \<open>std::out_of_range\<close>
  instead, on both paths after the CAST_VOTE request has been sent and before anything is
  written to the ledger.
\<close>

theorem weight_beyond_int_aborts_cast:
  "weight_loop ''prop-7''
     [\<lparr>vote_id_v = ''prop-7'', address_v = ''A'', weight = ''2147483648''\<rparr>] 0
     = Inl out_of_range
   \<and> postoffchainproposals example_wallet service_large example_env example_request
        example_node
     = (Failed (WeightNotReadable out_of_range),
        \<lparr>govEntries = [], proposals = [proposal_7, roadmap_1, roadmap_2],
         votes = [\<lparr>vote_id_v = ''prop-7'', address_v = ''A'', weight = ''2147483648''\<rparr>],
         statusOK = True,
         sent = [CAST_VOTE (''['' @ ballot_json \<lparr>voteid = ''prop-7'', address_b = ''A'',
                                   signature = ''A:magicprop-7_1'', ballot = ''1''\<rparr> @ '']'')]\<rparr>)
   \<and> vote example_wallet service_large example_env example_click ''1'' example_node
     = (Failed (WeightNotReadable out_of_range),
        \<lparr>govEntries = [], proposals = [proposal_7, roadmap_1, roadmap_2],
         votes = [\<lparr>vote_id_v = ''prop-7'', address_v = ''A'', weight = ''2147483648''\<rparr>],
         statusOK = True,
         sent = [CAST_VOTE (''['' @ ballot_json \<lparr>voteid = ''prop-7'', address_b = ''A'',
                                   signature = ''A:magicprop-7_1'', ballot = ''1''\<rparr> @ '']'')]\<rparr>)"
  by (simp add: example_defs run_defs service_large_def stoi_2147483648)

section \<open>The governance ledger\<close>

text \<open>
  C3. Writing an entry whose vote identifier the ledger already holds is rejected with
  \<open>DuplicateVoteError\<close>: the write looks at the ledger as it is at the moment of the
  write (\<open>entries1\<close>), whatever an earlier look (at \<open>entries0\<close>) had found. A write
  of a new identifier appends the entry. At the call sites of the two cast paths the
  value returned is dropped: there a rejected write leaves the node as it was.
\<close>

theorem write_rejects_existing_vote:
  "(Exists (voteID govVote) entries \<longrightarrow>
      WriteGovernanceEntry govVote entries = Inl DuplicateVoteError)
   \<and> (\<not> Exists (voteID govVote) entries0 \<and> Exists (voteID govVote) entries1 \<longrightarrow>
      WriteGovernanceEntry govVote entries1 = Inl DuplicateVoteError)
   \<and> (\<not> Exists (voteID govVote) entries \<longrightarrow>
      WriteGovernanceEntry govVote entries = Inr (entries @ [govVote]))
   \<and> (Exists (voteID govVote) (govEntries g) \<longrightarrow> store_vote govVote g = g)"
  by (simp add: WriteGovernanceEntry_def store_vote_def)

theorem write_rejects_existing_vote_witness:
  "\<not> Exists ''prop-7'' []
   \<and> Exists ''prop-7'' [\<lparr>voteID = ''prop-7'', voteWeight = 50\<rparr>]
   \<and> WriteGovernanceEntry \<lparr>voteID = ''prop-7'', voteWeight = 20\<rparr>
        [\<lparr>voteID = ''prop-7'', voteWeight = 50\<rparr>] = Inl DuplicateVoteError
   \<and> WriteGovernanceEntry \<lparr>voteID = ''prop-7'', voteWeight = 20\<rparr> []
        = Inr [\<lparr>voteID = ''prop-7'', voteWeight = 20\<rparr>]
   \<and> store_vote \<lparr>voteID = ''prop-7'', voteWeight = 20\<rparr>
        (example_node\<lparr>govEntries := [\<lparr>voteID = ''prop-7'', voteWeight = 50\<rparr>]\<rparr>)
       = example_node\<lparr>govEntries := [\<lparr>voteID = ''prop-7'', voteWeight = 50\<rparr>]\<rparr>"
  using write_rejects_existing_vote
          [of "\<lparr>voteID = ''prop-7'', voteWeight = 20\<rparr>"
              "[\<lparr>voteID = ''prop-7'', voteWeight = 50\<rparr>]" "[]"
              "[\<lparr>voteID = ''prop-7'', voteWeight = 50\<rparr>]"
              "example_node\<lparr>govEntries := [\<lparr>voteID = ''prop-7'', voteWeight = 50\<rparr>]\<rparr>"]
        write_rejects_existing_vote
          [of "\<lparr>voteID = ''prop-7'', voteWeight = 20\<rparr>" "[]" "[]" "[]" example_node]
  by (simp add: Exists_def example_node_def)

section \<open>The cast paths\<close>

text \<open>
  C5. The RPC path does not consult \<open>IsInitialBlockDownload\<close>: on a node that is
  still synchronising it collects the address \<open>A\<close>, signs, sends the CAST_VOTE request
  and records the vote. (The GUI path stops with \<open>NotSynced\<close>, \<open>gui_not_synced\<close>; the
  RPC path gives the same result whatever the flag is, \<open>rpc_ignores_sync_state\<close>.)
\<close>

theorem rpc_cast_while_not_synced:
  "IsInitialBlockDownload (example_env\<lparr>IsInitialBlockDownload := True\<rparr>)
   \<and> postoffchainproposals example_wallet service_50
        (example_env\<lparr>IsInitialBlockDownload := True\<rparr>) example_request example_node =
      (VoteCast 50,
       \<lparr>govEntries = [\<lparr>voteID = ''prop-7'', voteWeight = 50\<rparr>],
        proposals = [proposal_7, roadmap_1, roadmap_2],
        votes = [\<lparr>vote_id_v = ''prop-7'', address_v = ''A'', weight = ''50''\<rparr>],
        statusOK = True,
        sent = [CAST_VOTE (''['' @ ballot_json \<lparr>voteid = ''prop-7'', address_b = ''A'',
                                  signature = ''A:magicprop-7_1'', ballot = ''1''\<rparr> @ '']'')]\<rparr>)"
  by (simp add: example_defs run_defs service_50_def stoi_50)

text \<open>
  C9. If the signing of any address of the eligible set fails (the destination cannot
  be decoded, no key can be resolved, or the signing primitive declines), the cast leaves
  the node's state as it was: no request is sent and nothing is written. When the attempt
  reaches the signing loop (on the RPC path: two parameters, wallet not locked and not
  unlocked for staking only), it ends with the failure of an address of the set, one of
  the four signing failures.
\<close>

theorem signing_failure_aborts_cast:
  "(a \<in> set (collect_rpc c (std_time env) (mapWallet env) [])
      \<and> sign_ballot c (params request ! 0) (params request ! 1) a = Inl e \<longrightarrow>
      snd (postoffchainproposals c svc env request g) = g
      \<and> (\<not> fHelp request \<and> length (params request) = 2 \<and> \<not> IsLocked env
           \<and> \<not> (IsHDEnabled env \<and> fUnlockForStakingOnly env)
           \<and> \<not> Exists (params request ! 0) (govEntries g) \<longrightarrow>
         (\<exists>a' \<in> set (collect_rpc c (std_time env) (mapWallet env) []). \<exists>e'.
            sign_ballot c (params request ! 0) (params request ! 1) a' = Inl e'
            \<and> e' \<in> {AddressResolutionError, KeyIDNull, KeyUnavailableError, SigningError}
            \<and> fst (postoffchainproposals c svc env request g) = Failed e')))
   \<and> (selectedRow inp = Some nm \<and> b \<in> set (collect_gui c (mapWallet env) [])
      \<and> sign_ballot c (vote_id_p (select_proposal nm (proposals g))) decision b = Inl e \<longrightarrow>
      snd (vote c svc env inp decision g) = g
      \<and> (\<not> IsInitialBlockDownload env \<and> ctx_isValid inp \<and> confirmed inp
           \<and> \<not> Exists (vote_id_p (select_proposal nm (proposals g))) (govEntries g) \<longrightarrow>
         (\<exists>b' \<in> set (collect_gui c (mapWallet env) []). \<exists>e'.
            sign_ballot c (vote_id_p (select_proposal nm (proposals g))) decision b' = Inl e'
            \<and> e' \<in> {AddressResolutionError, KeyIDNull, KeyUnavailableError, SigningError}
            \<and> fst (vote c svc env inp decision g) = Failed e')))"
proof (intro conjI impI; (elim conjE)?)
  assume a: "a \<in> set (collect_rpc c (std_time env) (mapWallet env) [])"
    and f: "sign_ballot c (params request ! 0) (params request ! 1) a = Inl e"
  show "snd (postoffchainproposals c svc env request g) = g"
    using a f by (rule rpc_unchanged_when_address_fails)
  assume gates: "\<not> fHelp request" "length (params request) = 2"
    and lock: "\<not> IsLocked env" "\<not> (IsHDEnabled env \<and> fUnlockForStakingOnly env)"
    and fresh: "\<not> Exists (params request ! 0) (govEntries g)"
  from lock have unl: "EnsureWalletIsUnlocked env = None"
    by (simp add: EnsureWalletIsUnlocked_def)
  from sign_loop_fails [OF a f, of "''[''" 0] obtain a' e' where
    a': "a' \<in> set (collect_rpc c (std_time env) (mapWallet env) [])"
        "sign_ballot c (params request ! 0) (params request ! 1) a' = Inl e'"
        "sign_loop c (params request ! 0) (params request ! 1)
           (collect_rpc c (std_time env) (mapWallet env) []) ''['' 0 = Inl e'"
    by blast
  from fresh have "find_entry (params request ! 0) (govEntries g) = None"
    by (simp add: Exists_def)
  from rpc_sign_failure [OF gates unl this a'(3)]
  have "fst (postoffchainproposals c svc env request g) = Failed e'" by simp
  with a'(1,2) sign_ballot_error_kind [OF a'(2)]
  show "\<exists>a' \<in> set (collect_rpc c (std_time env) (mapWallet env) []). \<exists>e'.
            sign_ballot c (params request ! 0) (params request ! 1) a' = Inl e'
            \<and> e' \<in> {AddressResolutionError, KeyIDNull, KeyUnavailableError, SigningError}
            \<and> fst (postoffchainproposals c svc env request g) = Failed e'"
    by blast
next
  let ?vid = "vote_id_p (select_proposal nm (proposals g))"
  assume s: "selectedRow inp = Some nm"
    and b: "b \<in> set (collect_gui c (mapWallet env) [])"
    and f: "sign_ballot c ?vid decision b = Inl e"
  show "snd (vote c svc env inp decision g) = g"
    using s b f by (rule gui_unchanged_when_address_fails)
  assume gates: "\<not> IsInitialBlockDownload env" "ctx_isValid inp"
    and yes: "confirmed inp"
    and fresh: "\<not> Exists ?vid (govEntries g)"
  from sign_loop_fails [OF b f, of "''[''" 0] obtain b' e' where
    b': "b' \<in> set (collect_gui c (mapWallet env) [])"
        "sign_ballot c ?vid decision b' = Inl e'"
        "sign_loop c ?vid decision (collect_gui c (mapWallet env) []) ''['' 0 = Inl e'"
    by blast
  from fresh have "find_entry ?vid (govEntries g) = None"
    by (simp add: Exists_def)
  from gui_sign_failure [OF s gates this yes b'(3)]
  have "fst (vote c svc env inp decision g) = Failed e'" by simp
  with b'(1,2) sign_ballot_error_kind [OF b'(2)]
  show "\<exists>b' \<in> set (collect_gui c (mapWallet env) []). \<exists>e'.
            sign_ballot c ?vid decision b' = Inl e'
            \<and> e' \<in> {AddressResolutionError, KeyIDNull, KeyUnavailableError, SigningError}
            \<and> fst (vote c svc env inp decision g) = Failed e'"
    by blast
qed

theorem signing_failure_aborts_cast_witness:
  "''B'' \<in> set (collect_rpc example_wallet 4000000 [tx_recent, tx_old] [])
   \<and> ''B'' \<in> set (collect_gui example_wallet [tx_recent, tx_old] [])
   \<and> sign_ballot example_wallet ''prop-7'' ''1'' ''B'' = Inl KeyUnavailableError
   \<and> postoffchainproposals example_wallet service_50
        (example_env\<lparr>std_time := 4000000, mapWallet := [tx_recent, tx_old]\<rparr>)
        example_request example_node = (Failed KeyUnavailableError, example_node)
   \<and> vote example_wallet service_50
        (example_env\<lparr>std_time := 4000000, mapWallet := [tx_recent, tx_old]\<rparr>)
        example_click ''1'' example_node = (Failed KeyUnavailableError, example_node)"
  using signing_failure_aborts_cast
    [where a = "''B''" and b = "''B''" and c = example_wallet and svc = service_50
       and env = "example_env\<lparr>std_time := 4000000, mapWallet := [tx_recent, tx_old]\<rparr>"
       and request = example_request and g = example_node and e = KeyUnavailableError
       and inp = example_click and nm = "''Grant''" and decision = "''1''"]
  by (simp add: example_defs run_defs)

text \<open>
  On the GUI path the ballots of a CAST_VOTE request all carry the vote identifier that
  the lookup by the text of the selected row gave. When the selected proposal is in the
  buffer and the buffered display names are distinct, that is the selected proposal's own
  vote identifier.
\<close>

lemma gui_ballots_vote_id:
  "(vote c svc env inp decision g = (r, g') \<and> selectedRow inp = Some nm
      \<and> sent g' = sent g @ CAST_VOTE body # rest \<longrightarrow>
      (\<exists>bs. body = ''['' @ join_ballots 0 bs @ '']''
         \<and> (\<forall>b \<in> set bs. voteid b = vote_id_p (select_proposal nm (proposals g)))))
   \<and> select_proposal nm ps =
       (case List.find (\<lambda>p. name p = nm) ps of None \<Rightarrow> default_Proposals | Some p \<Rightarrow> p)
   \<and> vote_id_p default_Proposals = []
   \<and> (p \<in> set ps \<and> distinct (map name ps) \<longrightarrow> select_proposal (name p) ps = p)"
proof (intro conjI impI; (elim conjE)?)
  let ?vid = "vote_id_p (select_proposal nm (proposals g))"
  assume res: "vote c svc env inp decision g = (r, g')"
    and sel: "selectedRow inp = Some nm"
    and snt: "sent g' = sent g @ CAST_VOTE body # rest"
  from gui_cases [OF res] sel snt obtain pm where
    pm: "sign_loop c ?vid decision (collect_gui c (mapWallet env) []) ''['' 0 = Inr pm"
      and "sent g' = sent g @ [CAST_VOTE (pm @ '']'')]
           \<or> sent g' = sent g @ [CAST_VOTE (pm @ '']''), GET_PROPOSALS]"
    by auto
  with snt have body: "body = pm @ '']''" by auto
  from sign_loop_payload [OF pm] obtain bs where
    bs: "map (sign_ballot c ?vid decision) (collect_gui c (mapWallet env) []) = map Inr bs"
        "pm = ''['' @ join_ballots 0 bs"
    by blast
  from map_sign_ballot_fields [OF bs(1)] body bs(2)
  show "\<exists>bs. body = ''['' @ join_ballots 0 bs @ '']''
         \<and> (\<forall>b \<in> set bs. voteid b = ?vid)"
    by auto
next
  show "select_proposal nm ps =
       (case List.find (\<lambda>p. name p = nm) ps of None \<Rightarrow> default_Proposals | Some p \<Rightarrow> p)"
    by (rule select_proposal_first)
next
  show "vote_id_p default_Proposals = []" by (simp add: default_Proposals_def)
next
  assume "p \<in> set ps" "distinct (map name ps)"
  then show "select_proposal (name p) ps = p" by (rule select_proposal_distinct)
qed

text \<open>
  C10. The GUI path has only the display name of the selected row to find the proposal
  with, and no test that the lookup found it. With two buffered proposals named
  \<open>Roadmap\<close>, a cast from the second (vote identifier \<open>v2\<close>) signs and sends a ballot
  for \<open>v1\<close>; with an empty buffer the ballot it sends carries the empty vote identifier.
\<close>

theorem gui_cast_carries_other_vote_id:
  "vote_id_p roadmap_2 = ''v2''
   \<and> sent (snd (vote example_wallet service_nothing example_env
                  \<lparr>selectedRow = Some (name roadmap_2), ctx_isValid = True, confirmed = True\<rparr>
                  ''1'' example_node))
     = [CAST_VOTE (''['' @ ballot_json \<lparr>voteid = ''v1'', address_b = ''A'',
                            signature = ''A:magicv1_1'', ballot = ''1''\<rparr> @ '']''),
        GET_PROPOSALS]
   \<and> sent (snd (vote example_wallet service_nothing example_env
                  \<lparr>selectedRow = Some (name roadmap_2), ctx_isValid = True, confirmed = True\<rparr>
                  ''1'' (example_node\<lparr>proposals := []\<rparr>)))
     = [CAST_VOTE (''['' @ ballot_json \<lparr>voteid = [], address_b = ''A'',
                            signature = ''A:magic_1'', ballot = ''1''\<rparr> @ '']''),
        GET_PROPOSALS]"
  by (simp add: example_defs run_defs service_nothing_def)

text \<open>
  A cast that the service accepts and counts with weight 0 writes nothing: the second of
  two successive casts on \<open>prop-7\<close> is not answered with \<open>AlreadyVoted\<close> and sends a
  second CAST_VOTE request.
\<close>

theorem second_cast_not_already_voted_counterexample:
  "fst (postoffchainproposals example_wallet service_nothing example_env example_request
          example_node) = VoteCast 0
   \<and> postoffchainproposals example_wallet service_nothing example_env example_request
        (snd (postoffchainproposals example_wallet service_nothing example_env example_request
                example_node))
     = (VoteCast 0,
        \<lparr>govEntries = [], proposals = [proposal_7, roadmap_1, roadmap_2], votes = [],
         statusOK = True,
         sent = [CAST_VOTE (''['' @ ballot_json \<lparr>voteid = ''prop-7'', address_b = ''A'',
                                   signature = ''A:magicprop-7_1'', ballot = ''1''\<rparr> @ '']''),
                 CAST_VOTE (''['' @ ballot_json \<lparr>voteid = ''prop-7'', address_b = ''A'',
                                   signature = ''A:magicprop-7_1'', ballot = ''1''\<rparr> @ '']'')]\<rparr>)"
  by (simp add: example_defs run_defs service_nothing_def)

text \<open>
  C1, as amended. If the ledger holds an entry for the vote identifier and the attempt
  passes the checks that come first (RPC: two parameters, wallet not locked and not
  unlocked for staking only; GUI: a selected row, node synchronised, unlock granted), the
  cast ends with \<open>AlreadyVoted\<close> carrying
  the recorded weight of an entry of that identifier, and the node's state is as before: no
  request is sent. Of two successive casts on one identifier, when the first ended with a
  nonzero weight counted, the second ends with \<open>AlreadyVoted\<close> carrying that weight,
  with no request sent.
\<close>

theorem existing_entry_blocks_cast:
  "(\<not> fHelp request \<and> length (params request) = 2 \<and> \<not> IsLocked env
           \<and> \<not> (IsHDEnabled env \<and> fUnlockForStakingOnly env)
      \<and> Exists (params request ! 0) (govEntries g) \<longrightarrow>
      (\<exists>entry \<in> set (govEntries g). voteID entry = params request ! 0
         \<and> postoffchainproposals c svc env request g
             = (Failed (AlreadyVoted (voteWeight entry)), g)))
   \<and> (selectedRow inp = Some nm \<and> \<not> IsInitialBlockDownload env \<and> ctx_isValid inp
      \<and> Exists (vote_id_p (select_proposal nm (proposals g))) (govEntries g) \<longrightarrow>
      (\<exists>entry \<in> set (govEntries g). voteID entry = vote_id_p (select_proposal nm (proposals g))
         \<and> vote c svc env inp decision g = (Failed (AlreadyVoted (voteWeight entry)), g)))
   \<and> (postoffchainproposals c svc env request g = (VoteCast w, ga) \<and> w \<noteq> 0
      \<and> \<not> fHelp request' \<and> length (params request') = 2
      \<and> params request' ! 0 = params request ! 0 \<and> \<not> IsLocked env'
      \<and> \<not> (IsHDEnabled env' \<and> fUnlockForStakingOnly env') \<longrightarrow>
      postoffchainproposals c' svc' env' request' ga = (Failed (AlreadyVoted w), ga))
   \<and> (vote c svc env inp decision g = (VoteCast v, gb) \<and> v \<noteq> 0
      \<and> selectedRow inp = Some nm \<and> selectedRow inp' = Some nm'
      \<and> vote_id_p (select_proposal nm' (proposals gb))
           = vote_id_p (select_proposal nm (proposals g))
      \<and> \<not> IsInitialBlockDownload env' \<and> ctx_isValid inp' \<longrightarrow>
      vote c' svc' env' inp' decision' gb = (Failed (AlreadyVoted v), gb))"
proof (intro conjI impI; (elim conjE)?)
  assume gates: "\<not> fHelp request" "length (params request) = 2"
    and lock: "\<not> IsLocked env" "\<not> (IsHDEnabled env \<and> fUnlockForStakingOnly env)"
    and ex: "Exists (params request ! 0) (govEntries g)"
  from lock have unl: "EnsureWalletIsUnlocked env = None"
    by (simp add: EnsureWalletIsUnlocked_def)
  from Exists_find_entry [OF ex] obtain entry where
    "entry \<in> set (govEntries g)" "voteID entry = params request ! 0"
    "find_entry (params request ! 0) (govEntries g) = Some entry"
    by blast
  with rpc_already_voted [OF gates unl this(3)]
  show "\<exists>entry \<in> set (govEntries g). voteID entry = params request ! 0
         \<and> postoffchainproposals c svc env request g
             = (Failed (AlreadyVoted (voteWeight entry)), g)"
    by blast
next
  let ?vid = "vote_id_p (select_proposal nm (proposals g))"
  assume gates: "selectedRow inp = Some nm" "\<not> IsInitialBlockDownload env" "ctx_isValid inp"
    and "Exists ?vid (govEntries g)"
  from Exists_find_entry [OF this(4)] obtain entry where
    "entry \<in> set (govEntries g)" "voteID entry = ?vid"
    "find_entry ?vid (govEntries g) = Some entry"
    by blast
  with gui_already_voted [OF gates this(3)]
  show "\<exists>entry \<in> set (govEntries g). voteID entry = ?vid
         \<and> vote c svc env inp decision g = (Failed (AlreadyVoted (voteWeight entry)), g)"
    by blast
next
  assume first: "postoffchainproposals c svc env request g = (VoteCast w, ga)" "w \<noteq> 0"
    and gates: "\<not> fHelp request'" "length (params request') = 2"
    and lock: "\<not> IsLocked env'" "\<not> (IsHDEnabled env' \<and> fUnlockForStakingOnly env')"
    and same: "params request' ! 0 = params request ! 0"
  from rpc_entry_after_counted_cast [OF first] same
  have "find_entry (params request' ! 0) (govEntries ga)
          = Some \<lparr>voteID = params request ! 0, voteWeight = w\<rparr>"
    by simp
  moreover from lock have "EnsureWalletIsUnlocked env' = None"
    by (simp add: EnsureWalletIsUnlocked_def)
  ultimately show "postoffchainproposals c' svc' env' request' ga = (Failed (AlreadyVoted w), ga)"
    using rpc_already_voted [OF gates] by simp
next
  let ?vid = "vote_id_p (select_proposal nm (proposals g))"
  assume first: "vote c svc env inp decision g = (VoteCast v, gb)" "v \<noteq> 0"
      "selectedRow inp = Some nm"
    and sel2: "selectedRow inp' = Some nm'"
    and same: "vote_id_p (select_proposal nm' (proposals gb)) = ?vid"
    and gates: "\<not> IsInitialBlockDownload env'" "ctx_isValid inp'"
  from gui_entry_after_counted_cast [OF first] same
  have "find_entry (vote_id_p (select_proposal nm' (proposals gb))) (govEntries gb)
          = Some \<lparr>voteID = ?vid, voteWeight = v\<rparr>"
    by simp
  from gui_already_voted [OF sel2 gates this]
  show "vote c' svc' env' inp' decision' gb = (Failed (AlreadyVoted v), gb)"
    by simp
qed

theorem existing_entry_blocks_cast_witness:
  "Exists ''prop-7'' (govEntries (example_node\<lparr>govEntries := [\<lparr>voteID = ''prop-7'', voteWeight = 50\<rparr>]\<rparr>))
   \<and> postoffchainproposals example_wallet service_50 example_env example_request
        (example_node\<lparr>govEntries := [\<lparr>voteID = ''prop-7'', voteWeight = 50\<rparr>]\<rparr>)
       = (Failed (AlreadyVoted 50),
          example_node\<lparr>govEntries := [\<lparr>voteID = ''prop-7'', voteWeight = 50\<rparr>]\<rparr>)
   \<and> vote example_wallet service_50 example_env example_click ''1''
        (example_node\<lparr>govEntries := [\<lparr>voteID = ''prop-7'', voteWeight = 50\<rparr>]\<rparr>)
       = (Failed (AlreadyVoted 50),
          example_node\<lparr>govEntries := [\<lparr>voteID = ''prop-7'', voteWeight = 50\<rparr>]\<rparr>)
   \<and> fst (postoffchainproposals example_wallet service_50 example_env example_request
             example_node) = VoteCast 50
   \<and> postoffchainproposals example_wallet service_50 example_env example_request
        (snd (postoffchainproposals example_wallet service_50 example_env example_request
                example_node))
       = (Failed (AlreadyVoted 50),
          snd (postoffchainproposals example_wallet service_50 example_env example_request
                 example_node))
   \<and> fst (vote example_wallet service_50 example_env example_click ''1'' example_node)
       = VoteCast 50
   \<and> vote example_wallet service_50 example_env example_click ''0''
        (snd (vote example_wallet service_50 example_env example_click ''1'' example_node))
       = (Failed (AlreadyVoted 50),
          snd (vote example_wallet service_50 example_env example_click ''1'' example_node))"
  using existing_entry_blocks_cast
    [where request = example_request and env = example_env and c = example_wallet
       and svc = service_50 and inp = example_click and nm = "''Grant''" and decision = "''1''"
       and g = "example_node\<lparr>govEntries := [\<lparr>voteID = ''prop-7'', voteWeight = 50\<rparr>]\<rparr>"]
    existing_entry_blocks_cast
    [where request = example_request and env = example_env and c = example_wallet
       and svc = service_50 and inp = example_click and nm = "''Grant''" and decision = "''1''"
       and g = example_node and w = 50 and v = 50
       and ga = "snd (postoffchainproposals example_wallet service_50 example_env
                        example_request example_node)"
       and gb = "snd (vote example_wallet service_50 example_env example_click ''1''
                        example_node)"
       and request' = example_request and env' = example_env and c' = example_wallet
       and svc' = service_50 and inp' = example_click and nm' = "''Grant''"
       and decision' = "''0''"]
  by (simp add: example_defs run_defs service_50_def stoi_50)

text \<open>
  C2. A cast changes the ledger only by appending one entry, for the vote identifier
  of the cast, with the weight counted, and only when the CAST_VOTE exchange reported
  success and that weight is not 0. So every sequence of casts keeps all recorded weights
  different from 0. A cast that ends with weight 0 leaves the ledger as it was, and a later
  cast on the same vote identifier does not end with \<open>AlreadyVoted\<close>.
\<close>

theorem entry_written_only_on_counted_success:
  "(postoffchainproposals c svc env request g = (ra, ga) \<and> govEntries ga \<noteq> govEntries g \<longrightarrow>
      (\<exists>w pm rep. w \<noteq> 0 \<and> ra = VoteCast w
         \<and> svc (sent g @ [CAST_VOTE pm]) = Some rep \<and> r_statusOK rep
         \<and> weight_loop (params request ! 0) (r_votes rep) 0 = Inr w
         \<and> govEntries ga = govEntries g @ [\<lparr>voteID = params request ! 0, voteWeight = w\<rparr>]))
   \<and> (vote c svc env inp decision g = (rb, gb) \<and> govEntries gb \<noteq> govEntries g \<longrightarrow>
      (\<exists>nm w pm rep. selectedRow inp = Some nm \<and> w \<noteq> 0
         \<and> (rb = VoteCast w \<or> rb = VoteCastNeverReady w)
         \<and> svc (sent g @ [CAST_VOTE pm]) = Some rep \<and> r_statusOK rep
         \<and> weight_loop (vote_id_p (select_proposal nm (proposals g))) (r_votes rep) 0 = Inr w
         \<and> govEntries gb = govEntries g @
              [\<lparr>voteID = vote_id_p (select_proposal nm (proposals g)), voteWeight = w\<rparr>]))
   \<and> ((\<forall>e \<in> set (govEntries g). voteWeight e \<noteq> 0) \<longrightarrow>
      (\<forall>e \<in> set (govEntries (run_casts calls g)). voteWeight e \<noteq> 0))
   \<and> (postoffchainproposals c svc env request g = (VoteCast 0, gc) \<longrightarrow>
      govEntries gc = govEntries g
      \<and> (params request' ! 0 = params request ! 0 \<longrightarrow>
           fst (postoffchainproposals c' svc' env' request' gc) \<noteq> Failed (AlreadyVoted w')))
   \<and> (vote c svc env inp decision g = (VoteCast 0, gd) \<and> selectedRow inp = Some nm \<longrightarrow>
      govEntries gd = govEntries g
      \<and> (selectedRow inp' = Some nm'
          \<and> vote_id_p (select_proposal nm' (proposals gd))
               = vote_id_p (select_proposal nm (proposals g)) \<longrightarrow>
           fst (vote c' svc' env' inp' decision' gd) \<noteq> Failed (AlreadyVoted w')))"
proof (intro conjI impI; (elim conjE)?)
  assume "postoffchainproposals c svc env request g = (ra, ga)" "govEntries ga \<noteq> govEntries g"
  with rpc_cases [OF this(1)]
  show "\<exists>w pm rep. w \<noteq> 0 \<and> ra = VoteCast w
         \<and> svc (sent g @ [CAST_VOTE pm]) = Some rep \<and> r_statusOK rep
         \<and> weight_loop (params request ! 0) (r_votes rep) 0 = Inr w
         \<and> govEntries ga = govEntries g @ [\<lparr>voteID = params request ! 0, voteWeight = w\<rparr>]"
    by blast
next
  assume res: "vote c svc env inp decision g = (rb, gb)" and ch: "govEntries gb \<noteq> govEntries g"
  from gui_cases [OF res] ch obtain nm pm w rep where
    "selectedRow inp = Some nm" "rb = VoteCast w \<or> rb = VoteCastNeverReady w"
    "svc (sent g @ [CAST_VOTE (pm @ '']'')]) = Some rep" "r_statusOK rep"
    "weight_loop (vote_id_p (select_proposal nm (proposals g))) (r_votes rep) 0 = Inr w"
    "govEntries gb = (if w \<noteq> 0
       then govEntries g @
              [\<lparr>voteID = vote_id_p (select_proposal nm (proposals g)), voteWeight = w\<rparr>]
       else govEntries g)"
    by auto
  moreover from this(6) ch have "w \<noteq> 0" by auto
  ultimately show "\<exists>nm w pm rep. selectedRow inp = Some nm \<and> w \<noteq> 0
         \<and> (rb = VoteCast w \<or> rb = VoteCastNeverReady w)
         \<and> svc (sent g @ [CAST_VOTE pm]) = Some rep \<and> r_statusOK rep
         \<and> weight_loop (vote_id_p (select_proposal nm (proposals g))) (r_votes rep) 0 = Inr w
         \<and> govEntries gb = govEntries g @
              [\<lparr>voteID = vote_id_p (select_proposal nm (proposals g)), voteWeight = w\<rparr>]"
    by auto
next
  assume "\<forall>e \<in> set (govEntries g). voteWeight e \<noteq> 0"
  then show "\<forall>e \<in> set (govEntries (run_casts calls g)). voteWeight e \<noteq> 0"
    by (rule run_casts_keeps_weights_nonzero)
next
  assume res: "postoffchainproposals c svc env request g = (VoteCast 0, gc)"
  from rpc_cases [OF res]
  have same: "govEntries gc = govEntries g"
    and fresh: "find_entry (params request ! 0) (govEntries g) = None"
    by auto
  from same show "govEntries gc = govEntries g" .
  assume id: "params request' ! 0 = params request ! 0"
  show "fst (postoffchainproposals c' svc' env' request' gc) \<noteq> Failed (AlreadyVoted w')"
  proof
    assume "fst (postoffchainproposals c' svc' env' request' gc) = Failed (AlreadyVoted w')"
    then have "postoffchainproposals c' svc' env' request' gc
                 = (Failed (AlreadyVoted w'), snd (postoffchainproposals c' svc' env' request' gc))"
      by (metis prod.collapse)
    from rpc_already_voted_origin [OF this] id same fresh show False by simp
  qed
next
  let ?vid = "vote_id_p (select_proposal nm (proposals g))"
  assume res: "vote c svc env inp decision g = (VoteCast 0, gd)"
    and sel: "selectedRow inp = Some nm"
  from gui_cases [OF res] sel
  have same: "govEntries gd = govEntries g"
    and fresh: "find_entry ?vid (govEntries g) = None"
    by auto
  from same show "govEntries gd = govEntries g" .
  assume sel': "selectedRow inp' = Some nm'"
    and id: "vote_id_p (select_proposal nm' (proposals gd)) = ?vid"
  show "fst (vote c' svc' env' inp' decision' gd) \<noteq> Failed (AlreadyVoted w')"
  proof
    assume "fst (vote c' svc' env' inp' decision' gd) = Failed (AlreadyVoted w')"
    then have "vote c' svc' env' inp' decision' gd
                 = (Failed (AlreadyVoted w'), snd (vote c' svc' env' inp' decision' gd))"
      by (metis prod.collapse)
    from gui_already_voted_origin [OF this] sel' id same fresh show False by simp
  qed
qed

theorem entry_written_only_on_counted_success_witness:
  "postoffchainproposals example_wallet service_50 example_env example_request example_node
     = (VoteCast 50,
        example_node\<lparr>govEntries := [\<lparr>voteID = ''prop-7'', voteWeight = 50\<rparr>],
          votes := [\<lparr>vote_id_v = ''prop-7'', address_v = ''A'', weight = ''50''\<rparr>],
          statusOK := True,
          sent := [CAST_VOTE (''['' @ ballot_json \<lparr>voteid = ''prop-7'', address_b = ''A'',
                                    signature = ''A:magicprop-7_1'', ballot = ''1''\<rparr> @ '']'')]\<rparr>)
   \<and> fst (vote example_wallet service_50 example_env example_click ''1'' example_node)
       = VoteCast 50
   \<and> govEntries (snd (vote example_wallet service_50 example_env example_click ''1''
                        example_node))
       = [\<lparr>voteID = ''prop-7'', voteWeight = 50\<rparr>]
   \<and> govEntries (run_casts
         [RpcVote example_wallet service_nothing example_env example_request,
          GuiVote example_wallet service_50 example_env example_click ''1'',
          RpcVote example_wallet service_50 example_env example_request] example_node)
       = [\<lparr>voteID = ''prop-7'', voteWeight = 50\<rparr>]
   \<and> fst (postoffchainproposals example_wallet service_nothing example_env example_request
             example_node) = VoteCast 0
   \<and> govEntries (snd (postoffchainproposals example_wallet service_nothing example_env
                        example_request example_node)) = []
   \<and> fst (postoffchainproposals example_wallet service_nothing example_env example_request
             (snd (postoffchainproposals example_wallet service_nothing example_env
                     example_request example_node))) = VoteCast 0
   \<and> fst (vote example_wallet service_nothing example_env example_click ''1'' example_node)
       = VoteCast 0
   \<and> fst (vote example_wallet service_nothing example_env example_click ''1''
             (snd (vote example_wallet service_nothing example_env example_click ''1''
                     example_node))) = VoteCast 0"
  using entry_written_only_on_counted_success
    [where c = example_wallet and svc = service_50 and env = example_env
       and request = example_request and g = example_node and inp = example_click
       and decision = "''1''"
       and ra = "VoteCast 50" and rb = "VoteCast 50"
       and ga = "snd (postoffchainproposals example_wallet service_50 example_env
                        example_request example_node)"
       and gb = "snd (vote example_wallet service_50 example_env example_click ''1''
                        example_node)"
       and calls = "[RpcVote example_wallet service_nothing example_env example_request,
          GuiVote example_wallet service_50 example_env example_click ''1'',
          RpcVote example_wallet service_50 example_env example_request]"]
    entry_written_only_on_counted_success
    [where c = example_wallet and svc = service_nothing and env = example_env
       and request = example_request and g = example_node and inp = example_click
       and decision = "''1''" and nm = "''Grant''"
       and gc = "snd (postoffchainproposals example_wallet service_nothing example_env
                        example_request example_node)"
       and gd = "snd (vote example_wallet service_nothing example_env example_click ''1''
                        example_node)"
       and c' = example_wallet and svc' = service_nothing and env' = example_env
       and request' = example_request and inp' = example_click and nm' = "''Grant''"
       and decision' = "''1''" and w' = 0]
  by (simp add: example_defs run_defs service_50_def service_nothing_def stoi_50)

end
